theory Spec2Isabelle
  imports Main "HOL-Library.Word"
begin

section \<open>The Treadmill FB303 handler (TreadmillFB303.cpp)\<close>

text \<open>
  The handler is a C++ object with four data members that matter here: the status, the
  start time, a reference to the scheduler and the configuration map. Its methods are
  modelled as functions that take the object and return the result together with the
  updated object. The scheduler, the integer parser of folly and the clock are not part
  of TreadmillFB303.cpp: they are parameters of the model. The string arguments arrive
  as pointers that the methods dereference at once; the model takes the strings.
  \<open>getStatusDetails\<close> and \<open>getCounters\<close> are left out: the first reads a generated
  table of names, the second only calls the base class, and neither assigns a member.
\<close>

subsection \<open>Data\<close>

text \<open>The status enumeration of fb303 (a generated header), with its six enumerators.\<close>

datatype fb_status = DEAD | STARTING | ALIVE | STOPPING | STOPPED | WARNING

text \<open>Severities of the logging macro: \<open>LOG(INFO)\<close>, \<open>LOG(WARNING)\<close>, \<open>LOG(FATAL)\<close>.\<close>

datatype severity = Info | Warning | Fatal

text \<open>
  A log line is the list of the values streamed into it with \<open><<\<close>: string pieces and
  numbers.
\<close>

datatype piece = Str string | Num int

text \<open>
  The calls a method makes on the objects it holds, in program order: lines written to
  the log, calls on the scheduler and the mutating calls on the configuration map.
\<close>

datatype effect =
    LOG severity "piece list"
  | Scheduler_pause
  | Scheduler_resume
  | Scheduler_setPhase string
  | Scheduler_setRps "32 word"
  | Scheduler_setMaxOutstandingRequests "32 word"
  | Scheduler_isRunning
  | Scheduler_getRps
  | Scheduler_getMaxOutstandingRequests
  | Configuration_clear
  | Configuration_emplace string string

text \<open>
  The scheduler (Scheduler.h) is an external object. Its state is a type parameter and
  its methods are the fields of this record: each takes the scheduler's state and gives
  the new state, with the returned value where the handler reads one.
\<close>

record 's Scheduler =
  sched_pause :: "'s \<Rightarrow> 's"
  sched_resume :: "'s \<Rightarrow> bool \<times> 's"
  sched_setPhase :: "string \<Rightarrow> 's \<Rightarrow> 's"
  sched_setRps :: "32 word \<Rightarrow> 's \<Rightarrow> 's"
  sched_setMaxOutstandingRequests :: "32 word \<Rightarrow> 's \<Rightarrow> 's"
  sched_isRunning :: "'s \<Rightarrow> bool \<times> 's"
  sched_getRps :: "'s \<Rightarrow> 32 word \<times> 's"
  sched_getMaxOutstandingRequests :: "'s \<Rightarrow> 32 word \<times> 's"

text \<open>
  The object. \<open>m_status\<close>, \<open>m_aliveSince\<close>, \<open>m_scheduler\<close> and \<open>m_configuration\<close> are
  the members \<open>status_\<close>, \<open>aliveSince_\<close>, \<open>scheduler_\<close> and \<open>configuration_\<close>
  (a \<open>std::map\<close> from strings to strings). \<open>m_trace\<close> is not a member: it collects
  the effects of the calls made on this object so far. The member \<open>mutex_\<close> is not a
  field: the methods run one call at a time, and what the mutex does for calls that
  overlap is described by \<open>guard\<close> and \<open>excluded\<close> below.
\<close>

record 's TreadmillFB303 =
  m_status :: fb_status
  m_aliveSince :: "64 word"
  m_scheduler :: 's
  m_configuration :: "string \<rightharpoonup> string"
  m_trace :: "effect list"

text \<open>The Thrift structures of \<open>resume2\<close> and \<open>getRate\<close>.\<close>

record ResumeRequest =
  phaseName :: string

record ResumeResponse =
  success :: bool

record RateResponse =
  scheduler_running :: bool
  rps :: "32 word"
  max_outstanding :: "32 word"

text \<open>The exception of \<open>std::map::at\<close> on a missing key.\<close>

datatype exn = out_of_range

subsection \<open>The operations of std::map that the handler uses\<close>

definition count_map :: "('k \<rightharpoonup> 'v) \<Rightarrow> 'k \<Rightarrow> nat" where
  "count_map m k = (case m k of None \<Rightarrow> 0 | Some _ \<Rightarrow> 1)"

definition at_map :: "('k \<rightharpoonup> 'v) \<Rightarrow> 'k \<Rightarrow> exn + 'v" where
  "at_map m k = (case m k of None \<Rightarrow> Inl out_of_range | Some v \<Rightarrow> Inr v)"

text \<open>\<open>emplace\<close> inserts the pair only when the map has no element with that key.\<close>

definition emplace :: "('k \<rightharpoonup> 'v) \<Rightarrow> 'k \<Rightarrow> 'v \<Rightarrow> ('k \<rightharpoonup> 'v)" where
  "emplace m k v = (case m k of None \<Rightarrow> m(k \<mapsto> v) | Some _ \<Rightarrow> m)"

subsection \<open>Constructor, status and start time\<close>

definition emit :: "effect \<Rightarrow> 's TreadmillFB303 \<Rightarrow> 's TreadmillFB303" where
  "emit e h = h\<lparr>m_trace := m_trace h @ [e]\<rparr>"

text \<open>The constructor; \<open>now\<close> is the value of \<open>time(nullptr)\<close>.\<close>

definition TreadmillFB303 :: "64 word \<Rightarrow> 's \<Rightarrow> 's TreadmillFB303" where
  "TreadmillFB303 now scheduler =
     \<lparr>m_status = STARTING, m_aliveSince = now, m_scheduler = scheduler,
      m_configuration = Map.empty, m_trace = []\<rparr>"

definition setStatus :: "fb_status \<Rightarrow> 's TreadmillFB303 \<Rightarrow> 's TreadmillFB303" where
  "setStatus status h = h\<lparr>m_status := status\<rparr>"

definition getStatus :: "'s TreadmillFB303 \<Rightarrow> fb_status" where
  "getStatus h = m_status h"

definition aliveSince :: "'s TreadmillFB303 \<Rightarrow> 64 word" where
  "aliveSince h = m_aliveSince h"

subsection \<open>Control operations\<close>

definition pause :: "'s Scheduler \<Rightarrow> 's TreadmillFB303 \<Rightarrow> bool \<times> 's TreadmillFB303" where
  "pause S h =
     (let h1 = emit (LOG Info [Str ''TreadmillHandler::pause'']) h;
          h2 = emit Scheduler_pause (h1\<lparr>m_scheduler := sched_pause S (m_scheduler h1)\<rparr>);
          h3 = emit Configuration_clear (h2\<lparr>m_configuration := Map.empty\<rparr>)
      in (True, h3))"

definition resume :: "'s Scheduler \<Rightarrow> 's TreadmillFB303 \<Rightarrow> bool \<times> 's TreadmillFB303" where
  "resume S h =
     (let h1 = emit (LOG Info [Str ''TreadmillHandler::resume'']) h;
          (running, s') = sched_resume S (m_scheduler h1)
      in (running, emit Scheduler_resume (h1\<lparr>m_scheduler := s'\<rparr>)))"

text \<open>The request is a pointer that may be null: \<open>None\<close>.\<close>

definition future_resume2 ::
  "'s Scheduler \<Rightarrow> ResumeRequest option \<Rightarrow> 's TreadmillFB303 \<Rightarrow>
   ResumeResponse \<times> 's TreadmillFB303" where
  "future_resume2 S req h =
     (let phase = (case req of Some r \<Rightarrow> phaseName r | None \<Rightarrow> ''UNKNOWN_PHASE'');
          h1 = emit (LOG Info [Str ''TreadmillHandler::resume2 with phase '', Str phase]) h;
          h2 = emit (Scheduler_setPhase phase)
                 (h1\<lparr>m_scheduler := sched_setPhase S phase (m_scheduler h1)\<rparr>);
          (running, s') = sched_resume S (m_scheduler h2);
          h3 = emit Scheduler_resume (h2\<lparr>m_scheduler := s'\<rparr>);
          h4 = emit (LOG Info [Str ''Scheduler is currently '',
                 Str (if running then ''Running'' else ''Not Running'')]) h3
      in (\<lparr>success = running\<rparr>, h4))"

definition setRps :: "'s Scheduler \<Rightarrow> 32 word \<Rightarrow> 's TreadmillFB303 \<Rightarrow> 's TreadmillFB303" where
  "setRps S r h =
     (let h1 = emit (LOG Info [Str ''TreadmillHandler::setRps to '', Num (sint r)]) h
      in emit (Scheduler_setRps r) (h1\<lparr>m_scheduler := sched_setRps S r (m_scheduler h1)\<rparr>))"

definition setMaxOutstanding ::
  "'s Scheduler \<Rightarrow> 32 word \<Rightarrow> 's TreadmillFB303 \<Rightarrow> 's TreadmillFB303" where
  "setMaxOutstanding S n h =
     (let h1 = emit (LOG Info [Str ''TreadmillHandler::setMaxOutstanding to '', Num (sint n)]) h
      in emit (Scheduler_setMaxOutstandingRequests n)
           (h1\<lparr>m_scheduler := sched_setMaxOutstandingRequests S n (m_scheduler h1)\<rparr>))"

definition future_getRate ::
  "'s Scheduler \<Rightarrow> 's TreadmillFB303 \<Rightarrow> RateResponse \<times> 's TreadmillFB303" where
  "future_getRate S h =
     (let (running, s1) = sched_isRunning S (m_scheduler h);
          h1 = emit Scheduler_isRunning (h\<lparr>m_scheduler := s1\<rparr>);
          (r, s2) = sched_getRps S (m_scheduler h1);
          h2 = emit Scheduler_getRps (h1\<lparr>m_scheduler := s2\<rparr>);
          (n, s3) = sched_getMaxOutstandingRequests S (m_scheduler h2);
          h3 = emit Scheduler_getMaxOutstandingRequests (h2\<lparr>m_scheduler := s3\<rparr>)
      in (\<lparr>scheduler_running = running, rps = r, max_outstanding = n\<rparr>, h3))"

subsection \<open>The configuration store\<close>

definition future_getConfiguration ::
  "string \<Rightarrow> 's TreadmillFB303 \<Rightarrow> (exn + string) \<times> 's TreadmillFB303" where
  "future_getConfiguration key h =
     (let h1 = emit (LOG Info [Str ''TreadmillHandler::getConfiguration: '', Str key]) h
      in if count_map (m_configuration h1) key > 0 then
           (case at_map (m_configuration h1) key of
              Inl e \<Rightarrow> (Inl e, h1)
            | Inr v \<Rightarrow>
                (Inr v, emit (LOG Info [Str ''returning '', Str key, Str '' = '', Str v]) h1))
         else (Inr [], h1))"

definition setConfiguration ::
  "string \<Rightarrow> string \<Rightarrow> 's TreadmillFB303 \<Rightarrow> 's TreadmillFB303" where
  "setConfiguration key v h =
     (let h1 = emit (LOG Info [Str ''TreadmillHandler::setConfiguration: '', Str key,
                 Str '' = '', Str v]) h
      in emit (Configuration_emplace key v)
           (h1\<lparr>m_configuration := emplace (m_configuration h1) key v\<rparr>))"

text \<open>
  The overload with a numeric default. \<open>tryTo\<close> stands for \<open>folly::tryTo<uint32_t>\<close>:
  \<open>None\<close> is an \<open>Expected\<close> that holds no value.
\<close>

definition getConfigurationValue ::
  "(string \<Rightarrow> 32 word option) \<Rightarrow> string \<Rightarrow> 32 word \<Rightarrow> 's TreadmillFB303 \<Rightarrow>
   (exn + 32 word) \<times> 's TreadmillFB303" where
  "getConfigurationValue tryTo key defaultValue h =
     (if count_map (m_configuration h) key > 0 then
        (case at_map (m_configuration h) key of
           Inl e \<Rightarrow> (Inl e, h)
         | Inr v \<Rightarrow>
             (case tryTo v of
                Some result \<Rightarrow> (Inr result, h)
              | None \<Rightarrow>
                  (Inr defaultValue,
                   emit (LOG Warning [Str ''failed to convert value ['', Str v, Str '']'']) h)))
      else (Inr defaultValue, h))"

text \<open>The overload with a string default.\<close>

definition getConfigurationValue_string ::
  "string \<Rightarrow> string \<Rightarrow> 's TreadmillFB303 \<Rightarrow> exn + string" where
  "getConfigurationValue_string key defaultValue h =
     (if count_map (m_configuration h) key > 0 then at_map (m_configuration h) key
      else Inr defaultValue)"

subsection \<open>Sequences of calls\<close>

text \<open>
  The methods above as one datatype of calls, so that a property can speak about every
  sequence of calls on a handler. \<open>exec\<close> makes one call and keeps the object;
  \<open>run\<close> makes the calls of a list from left to right.
\<close>

datatype op =
    Op_setStatus fb_status
  | Op_getStatus
  | Op_aliveSince
  | Op_pause
  | Op_resume
  | Op_resume2 "ResumeRequest option"
  | Op_setRps "32 word"
  | Op_setMaxOutstanding "32 word"
  | Op_getRate
  | Op_getConfiguration string
  | Op_setConfiguration string string
  | Op_getConfigurationValue string "32 word"
  | Op_getConfigurationValue_string string string

fun exec ::
  "(string \<Rightarrow> 32 word option) \<Rightarrow> 's Scheduler \<Rightarrow> op \<Rightarrow> 's TreadmillFB303 \<Rightarrow> 's TreadmillFB303" where
  "exec tryTo S (Op_setStatus st) h = setStatus st h"
| "exec tryTo S Op_getStatus h = h"
| "exec tryTo S Op_aliveSince h = h"
| "exec tryTo S Op_pause h = snd (pause S h)"
| "exec tryTo S Op_resume h = snd (resume S h)"
| "exec tryTo S (Op_resume2 req) h = snd (future_resume2 S req h)"
| "exec tryTo S (Op_setRps r) h = setRps S r h"
| "exec tryTo S (Op_setMaxOutstanding n) h = setMaxOutstanding S n h"
| "exec tryTo S Op_getRate h = snd (future_getRate S h)"
| "exec tryTo S (Op_getConfiguration k) h = snd (future_getConfiguration k h)"
| "exec tryTo S (Op_setConfiguration k v) h = setConfiguration k v h"
| "exec tryTo S (Op_getConfigurationValue k d) h = snd (getConfigurationValue tryTo k d h)"
| "exec tryTo S (Op_getConfigurationValue_string k d) h = h"

fun run ::
  "(string \<Rightarrow> 32 word option) \<Rightarrow> 's Scheduler \<Rightarrow> op list \<Rightarrow> 's TreadmillFB303 \<Rightarrow>
   's TreadmillFB303" where
  "run tryTo S [] h = h"
| "run tryTo S (c # cs) h = run tryTo S cs (exec tryTo S c h)"

fun is_setStatus :: "op \<Rightarrow> bool" where
  "is_setStatus (Op_setStatus st) = True"
| "is_setStatus c = False"

fun sets_key :: "string \<Rightarrow> op \<Rightarrow> bool" where
  "sets_key k (Op_setConfiguration k' v) = (k' = k)"
| "sets_key k c = False"

subsection \<open>The mutex and calls that overlap\<close>

text \<open>
  The holder on \<open>mutex_\<close> that a method's body takes: \<open>setStatus\<close> takes a
  \<open>WriteHolder\<close>, \<open>getStatus\<close> and \<open>aliveSince\<close> take a \<open>ReadHolder\<close>, and no other
  method takes one.
\<close>

datatype holder = ReadHolder | WriteHolder

fun guard :: "op \<Rightarrow> holder option" where
  "guard (Op_setStatus st) = Some WriteHolder"
| "guard Op_getStatus = Some ReadHolder"
| "guard Op_aliveSince = Some ReadHolder"
| "guard c = None"

text \<open>
  A shared mutex keeps two bodies apart when both hold it and one of them holds it for
  writing. A body that takes no holder is kept apart from nothing.
\<close>

fun excluded :: "holder option \<Rightarrow> holder option \<Rightarrow> bool" where
  "excluded (Some WriteHolder) (Some b) = True"
| "excluded (Some a) (Some WriteHolder) = True"
| "excluded a b = False"

text \<open>
  \<open>future_getConfiguration\<close> makes two calls on the map, \<open>count\<close> and then \<open>at\<close>.
  \<open>getConfiguration_count\<close> is its body up to and including \<open>count\<close>, and
  \<open>getConfiguration_rest\<close> is the body from the test of that count on.
\<close>

definition getConfiguration_count ::
  "string \<Rightarrow> 's TreadmillFB303 \<Rightarrow> bool \<times> 's TreadmillFB303" where
  "getConfiguration_count key h =
     (let h1 = emit (LOG Info [Str ''TreadmillHandler::getConfiguration: '', Str key]) h
      in (count_map (m_configuration h1) key > 0, h1))"

definition getConfiguration_rest ::
  "string \<Rightarrow> bool \<Rightarrow> 's TreadmillFB303 \<Rightarrow> (exn + string) \<times> 's TreadmillFB303" where
  "getConfiguration_rest key present h =
     (if present then
        (case at_map (m_configuration h) key of
           Inl e \<Rightarrow> (Inl e, h)
         | Inr v \<Rightarrow>
             (Inr v, emit (LOG Info [Str ''returning '', Str key, Str '' = '', Str v]) h))
      else (Inr [], h))"

text \<open>
  A \<open>getConfiguration\<close> on one thread while another thread makes the call \<open>w\<close>, in the
  schedule where all of \<open>w\<close> runs between the reader's \<open>count\<close> and its \<open>at\<close>. Each
  call on the map is taken as one step. The result is \<open>None\<close> when the mutex rules the
  schedule out.
\<close>

definition getConfiguration_during ::
  "(string \<Rightarrow> 32 word option) \<Rightarrow> 's Scheduler \<Rightarrow> string \<Rightarrow> op \<Rightarrow> 's TreadmillFB303 \<Rightarrow>
   ((exn + string) \<times> 's TreadmillFB303) option" where
  "getConfiguration_during tryTo S key w h =
     (if excluded (guard (Op_getConfiguration key)) (guard w) then None
      else
        let (present, h1) = getConfiguration_count key h;
            h2 = exec tryTo S w h1
        in Some (getConfiguration_rest key present h2))"

text \<open>
  The same for \<open>getStatus\<close>, whose body is one read of \<open>status_\<close> under its holder: the
  call \<open>w\<close> runs after the reader has taken the holder and before it reads.
\<close>

definition getStatus_during ::
  "(string \<Rightarrow> 32 word option) \<Rightarrow> 's Scheduler \<Rightarrow> op \<Rightarrow> 's TreadmillFB303 \<Rightarrow>
   fb_status option" where
  "getStatus_during tryTo S w h =
     (if excluded (guard Op_getStatus) (guard w) then None
      else Some (getStatus (exec tryTo S w h)))"

subsection \<open>The global instance\<close>

text \<open>
  \<open>LOG(FATAL)\<close> writes its line and terminates the process: a function that reaches it
  returns \<open>Inl\<close> of the line instead of a result.
\<close>

datatype abort = Abort "piece list"

text \<open>
  The variables of the process: \<open>g_instance\<close> is the shared pointer \<open>instance\<close> of the
  anonymous namespace (\<open>None\<close> is the null pointer), \<open>g_log\<close> the lines that the
  functions below write to the log.
\<close>

record 's process =
  g_instance :: "'s TreadmillFB303 option"
  g_log :: "effect list"

text \<open>
  What \<open>make_fb303\<close> leaves in \<open>server_thread\<close>: a thread that serves a Thrift server
  on a port. \<open>to_instance\<close> says that the interface of the server is the pointer the
  accessor returned, and that it is not null.
\<close>

record server_thread =
  port :: "32 word"
  to_instance :: bool

definition process_start :: "'s process" where
  "process_start = \<lparr>g_instance = None, g_log = []\<rparr>"

definition getGlobalTreadmillFB303 :: "'s process \<Rightarrow> abort + 's TreadmillFB303 option" where
  "getGlobalTreadmillFB303 g =
     (if g_instance g = None then Inl (Abort [Str ''No global Treadmill FB303 instance set''])
      else Inr (g_instance g))"

definition make_fb303 ::
  "64 word \<Rightarrow> 32 word \<Rightarrow> 's \<Rightarrow> 's process \<Rightarrow> abort + server_thread \<times> 's process" where
  "make_fb303 now server_port scheduler g =
     (if g_instance g \<noteq> None then
        Inl (Abort [Str ''Global Treadmill FB303 instance was already set''])
      else
        let g1 = g\<lparr>g_instance := Some (TreadmillFB303 now scheduler)\<rparr>;
            g2 = g1\<lparr>g_log := g_log g1 @
                   [LOG Info [Str ''FB303 running on port '', Num (sint server_port)]]\<rparr>
        in case getGlobalTreadmillFB303 g2 of
             Inl a \<Rightarrow> Inl a
           | Inr p \<Rightarrow> Inr (\<lparr>port = server_port, to_instance = (p \<noteq> None)\<rparr>, g2))"

subsection \<open>A decimal parser\<close>

text \<open>
  Modelled from the spec: \<open>folly::tryTo<uint32_t>\<close> belongs to the folly library and is
  not in TreadmillFB303.cpp. The specification speaks of "a valid unsigned integer
  string" with the examples "42" (valid) and "abc" (not valid). \<open>decimal_uint32\<close> accepts
  the non-empty strings of decimal digits whose value fits 32 bits. It is one instance of
  the parameter \<open>tryTo\<close>, used to run \<open>getConfigurationValue\<close> on examples; the
  theorems about \<open>getConfigurationValue\<close> hold for every parser.
\<close>

definition digit_of :: "char \<Rightarrow> nat option" where
  "digit_of c =
     (if of_char c \<ge> (48::nat) \<and> of_char c \<le> (57::nat) then Some (of_char c - 48) else None)"

fun digits_value :: "nat \<Rightarrow> string \<Rightarrow> nat option" where
  "digits_value acc [] = Some acc"
| "digits_value acc (c # cs) =
     (case digit_of c of None \<Rightarrow> None | Some d \<Rightarrow> digits_value (10 * acc + d) cs)"

definition decimal_uint32 :: "string \<Rightarrow> 32 word option" where
  "decimal_uint32 s =
     (if s = [] then None
      else case digits_value 0 s of
             None \<Rightarrow> None
           | Some n \<Rightarrow> if n < 2 ^ 32 then Some (of_nat n) else None)"

text \<open>
  A scheduler for examples. Its state is a running flag and the current phase; it starts
  running on \<open>resume\<close> only when a phase has been set.
\<close>

definition example_scheduler :: "(bool \<times> string) Scheduler" where
  "example_scheduler =
     \<lparr>sched_pause = (\<lambda>(r, p). (False, p)),
      sched_resume = (\<lambda>(r, p). (p \<noteq> [], (p \<noteq> [], p))),
      sched_setPhase = (\<lambda>q (r, p). (r, q)),
      sched_setRps = (\<lambda>n s. s),
      sched_setMaxOutstandingRequests = (\<lambda>n s. s),
      sched_isRunning = (\<lambda>(r, p). (r, (r, p))),
      sched_getRps = (\<lambda>s. (0, s)),
      sched_getMaxOutstandingRequests = (\<lambda>s. (0, s))\<rparr>"

section \<open>Properties\<close>

subsection \<open>What each call leaves unchanged\<close>

lemmas method_defs =
  pause_def resume_def future_resume2_def setRps_def setMaxOutstanding_def future_getRate_def
  future_getConfiguration_def setConfiguration_def getConfigurationValue_def setStatus_def

lemma exec_status: "\<not> is_setStatus c \<Longrightarrow> m_status (exec tryTo S c h) = m_status h"
  by (cases c) (simp_all add: method_defs emit_def Let_def split: prod.splits sum.splits option.splits)

lemma exec_aliveSince: "m_aliveSince (exec tryTo S c h) = m_aliveSince h"
  by (cases c) (simp_all add: method_defs emit_def Let_def split: prod.splits sum.splits option.splits)

lemma exec_absent:
  "\<not> sets_key k c \<Longrightarrow> m_configuration h k = None \<Longrightarrow> m_configuration (exec tryTo S c h) k = None"
  by (cases c)
    (auto simp add: method_defs emit_def emplace_def Let_def
      split: prod.splits sum.splits option.splits)

lemma run_status:
  "\<forall>c \<in> set cs. \<not> is_setStatus c \<Longrightarrow> m_status (run tryTo S cs h) = m_status h"
  by (induction cs arbitrary: h) (simp_all add: exec_status)

lemma run_aliveSince: "m_aliveSince (run tryTo S cs h) = m_aliveSince h"
  by (induction cs arbitrary: h) (simp_all add: exec_aliveSince)

lemma run_absent:
  "\<forall>c \<in> set cs. \<not> sets_key k c \<Longrightarrow> m_configuration h k = None \<Longrightarrow>
   m_configuration (run tryTo S cs h) k = None"
  by (induction cs arbitrary: h) (simp_all add: exec_absent)

subsection \<open>Reading the configuration\<close>

lemma get_absent: "m_configuration h k = None \<Longrightarrow> fst (future_getConfiguration k h) = Inr []"
  by (simp add: future_getConfiguration_def emit_def count_map_def Let_def)

lemma get_present: "m_configuration h k = Some v \<Longrightarrow> fst (future_getConfiguration k h) = Inr v"
  by (simp add: future_getConfiguration_def emit_def count_map_def at_map_def Let_def)

lemma configuration_setConfiguration:
  "m_configuration (setConfiguration k v h) = emplace (m_configuration h) k v"
  by (simp add: setConfiguration_def emit_def Let_def)

text \<open>
  A write to a key that the map does not hold is read back; a write to a key that the
  map holds leaves the old value, which is what the next read returns.
\<close>

lemma get_after_set_absent:
  "m_configuration h k = None \<Longrightarrow>
   fst (future_getConfiguration k (setConfiguration k v h)) = Inr v"
  by (rule get_present) (simp add: configuration_setConfiguration emplace_def)

lemma get_after_set_present:
  "m_configuration h k = Some old \<Longrightarrow>
   fst (future_getConfiguration k (setConfiguration k v h)) = Inr old"
  by (rule get_present) (simp add: configuration_setConfiguration emplace_def)

subsection \<open>Calls that overlap\<close>

text \<open>The two parts of \<open>future_getConfiguration\<close>, run one after the other, are the method.\<close>

lemma getConfiguration_count_rest:
  "future_getConfiguration key h =
     (case getConfiguration_count key h of (present, h1) \<Rightarrow> getConfiguration_rest key present h1)"
  by (simp add: future_getConfiguration_def getConfiguration_count_def
      getConfiguration_rest_def Let_def)

text \<open>
  The status register is protected: the one method that assigns \<open>status_\<close> cannot run
  inside \<open>getStatus\<close>, and a call that can run there leaves the status as it was, so
  the reader sees the value from before.
\<close>

lemma setStatus_excluded_from_getStatus:
  "getStatus_during tryTo S (Op_setStatus st) h = None"
  by (simp add: getStatus_during_def)

lemma getStatus_during_unchanged:
  "getStatus_during tryTo S w h = Some st \<Longrightarrow> st = getStatus h"
proof -
  assume seen: "getStatus_during tryTo S w h = Some st"
  then have "\<not> is_setStatus w"
    by (cases w) (simp_all add: getStatus_during_def)
  then have "m_status (exec tryTo S w h) = m_status h"
    by (rule exec_status)
  with seen show ?thesis
    by (simp add: getStatus_during_def getStatus_def split: if_splits)
qed

text \<open>
  The configuration map is not: no holder is taken around it, so every call can run
  between the reader's \<open>count\<close> and its \<open>at\<close>. When that call is \<open>pause\<close> and the key
  was set, \<open>at\<close> finds the key gone.
\<close>

lemma getConfiguration_never_excluded:
  "getConfiguration_during tryTo S key w h \<noteq> None"
  by (simp add: getConfiguration_during_def split: prod.splits)

lemma getConfiguration_during_pause:
  "m_configuration h key = Some v \<Longrightarrow>
   map_option fst (getConfiguration_during tryTo S key Op_pause h) = Some (Inl out_of_range)"
  by (simp add: getConfiguration_during_def getConfiguration_count_def getConfiguration_rest_def
      pause_def emit_def count_map_def at_map_def Let_def)

subsection \<open>The claims\<close>

text \<open>
  C1. The claim: \<open>setConfiguration k v\<close> followed by \<open>getConfiguration k\<close> returns \<open>v\<close>,
  also when \<open>k\<close> already holds a value. On the code it fails for a key that is already
  set: a new handler on which \<open>''k''\<close> is set to \<open>''old''\<close> and then to \<open>''new''\<close>
  returns \<open>''old''\<close>, because \<open>emplace\<close> does not replace an element.
\<close>

theorem setConfiguration_keeps_prior_value:
  "fst (future_getConfiguration ''k''
          (setConfiguration ''k'' ''new''
             (setConfiguration ''k'' ''old'' (TreadmillFB303 0 ())))) = Inr ''old''"
  by (simp add: get_present configuration_setConfiguration emplace_def TreadmillFB303_def)

text \<open>
  C2. \<open>pause\<close> returns true for every scheduler and every handler; its effects are, in
  this order, the log line, the call of the scheduler's \<open>pause\<close> and the clearing of the
  map; the scheduler is left in the state its \<open>pause\<close> gives; and right afterwards
  \<open>getConfiguration\<close> returns the empty string for every key, whatever was set before.
\<close>

theorem pause_true_then_clear:
  "fst (pause S h) = True \<and>
   m_trace (snd (pause S h)) =
     m_trace h @ [LOG Info [Str ''TreadmillHandler::pause''], Scheduler_pause, Configuration_clear] \<and>
   m_scheduler (snd (pause S h)) = sched_pause S (m_scheduler h) \<and>
   (\<forall>k. fst (future_getConfiguration k (snd (pause S h))) = Inr [])"
proof -
  have "m_configuration (snd (pause S h)) k = None" for k
    by (simp add: pause_def emit_def Let_def)
  then have "\<forall>k. fst (future_getConfiguration k (snd (pause S h))) = Inr []"
    by (simp add: get_absent)
  then show ?thesis
    by (simp add: pause_def emit_def Let_def)
qed

theorem pause_true_then_clear_witness:
  "fst (future_getConfiguration ''rps''
          (setConfiguration ''rps'' ''10'' (TreadmillFB303 0 (True, ''warmup'')))) = Inr ''10'' \<and>
   fst (pause example_scheduler
          (setConfiguration ''rps'' ''10'' (TreadmillFB303 0 (True, ''warmup'')))) = True \<and>
   fst (future_getConfiguration ''rps''
          (snd (pause example_scheduler
             (setConfiguration ''rps'' ''10'' (TreadmillFB303 0 (True, ''warmup'')))))) = Inr []"
proof -
  have "m_configuration (setConfiguration ''rps'' ''10'' (TreadmillFB303 0 (True, ''warmup''))) ''rps''
        = Some ''10''"
    by (simp add: configuration_setConfiguration emplace_def TreadmillFB303_def)
  then have "fst (future_getConfiguration ''rps''
      (setConfiguration ''rps'' ''10'' (TreadmillFB303 0 (True, ''warmup'')))) = Inr ''10''"
    by (rule get_present)
  with pause_true_then_clear [of example_scheduler
      "setConfiguration ''rps'' ''10'' (TreadmillFB303 0 (True, ''warmup''))"]
  show ?thesis by simp
qed

text \<open>
  C3. For every parser \<open>tryTo\<close>: when the key holds a value that parses, the parsed
  number is returned and nothing is logged; when the key is absent, the default is
  returned and nothing is logged; when the key holds a value that does not parse, the
  default is returned and one warning is logged. The call never raises, and it logs
  exactly when the stored value fails to parse.
\<close>

theorem getConfigurationValue_parsed_or_default:
  "(m_configuration h key = Some v \<and> tryTo v = Some r \<longrightarrow>
      getConfigurationValue tryTo key d h = (Inr r, h)) \<and>
   (m_configuration h key = None \<longrightarrow> getConfigurationValue tryTo key d h = (Inr d, h)) \<and>
   (m_configuration h key = Some v \<and> tryTo v = None \<longrightarrow>
      fst (getConfigurationValue tryTo key d h) = Inr d \<and>
      snd (getConfigurationValue tryTo key d h) =
        h\<lparr>m_trace := m_trace h @
             [LOG Warning [Str ''failed to convert value ['', Str v, Str '']'']]\<rparr>) \<and>
   (\<exists>n. fst (getConfigurationValue tryTo key d h) = Inr n) \<and>
   (m_trace (snd (getConfigurationValue tryTo key d h)) \<noteq> m_trace h \<longleftrightarrow>
      (\<exists>w. m_configuration h key = Some w \<and> tryTo w = None))"
  by (auto simp add: getConfigurationValue_def count_map_def at_map_def emit_def
      split: option.splits)

theorem getConfigurationValue_parsed_or_default_witness:
  "m_configuration (setConfiguration ''bad'' ''abc''
      (setConfiguration ''n'' ''42'' (TreadmillFB303 0 ()))) ''n'' = Some ''42'' \<and>
   decimal_uint32 ''42'' = Some 42 \<and>
   m_configuration (setConfiguration ''bad'' ''abc''
      (setConfiguration ''n'' ''42'' (TreadmillFB303 0 ()))) ''bad'' = Some ''abc'' \<and>
   decimal_uint32 ''abc'' = None \<and>
   m_configuration (setConfiguration ''bad'' ''abc''
      (setConfiguration ''n'' ''42'' (TreadmillFB303 0 ()))) ''none'' = None \<and>
   fst (getConfigurationValue decimal_uint32 ''n'' 7 (setConfiguration ''bad'' ''abc''
      (setConfiguration ''n'' ''42'' (TreadmillFB303 0 ())))) = Inr 42 \<and>
   fst (getConfigurationValue decimal_uint32 ''bad'' 7 (setConfiguration ''bad'' ''abc''
      (setConfiguration ''n'' ''42'' (TreadmillFB303 0 ())))) = Inr 7 \<and>
   fst (getConfigurationValue decimal_uint32 ''none'' 7 (setConfiguration ''bad'' ''abc''
      (setConfiguration ''n'' ''42'' (TreadmillFB303 0 ())))) = Inr 7"
proof -
  let ?h = "setConfiguration ''bad'' ''abc''
      (setConfiguration ''n'' ''42'' (TreadmillFB303 0 ()))"
  have n: "m_configuration ?h ''n'' = Some ''42''"
    and bad: "m_configuration ?h ''bad'' = Some ''abc''"
    and none: "m_configuration ?h ''none'' = None"
    by (simp_all add: configuration_setConfiguration emplace_def TreadmillFB303_def)
  have p42: "decimal_uint32 ''42'' = Some 42" and pabc: "decimal_uint32 ''abc'' = None"
    by (simp_all add: decimal_uint32_def digit_of_def)
  show ?thesis
    using n bad none p42 pabc
      getConfigurationValue_parsed_or_default
        [of ?h "''n''" "''42''" decimal_uint32 42 7]
      getConfigurationValue_parsed_or_default
        [of ?h "''bad''" "''abc''" decimal_uint32 0 7]
      getConfigurationValue_parsed_or_default
        [of ?h "''none''" "[]" decimal_uint32 0 7]
    by simp
qed

text \<open>
  C4. The accessor called while the instance is null ends the process with its fatal
  line, and no call of it returns a null pointer. \<open>make_fb303\<close> called while an instance
  exists ends the process with its fatal line and gives no new state; from a process
  without an instance it succeeds and stores a new handler, and any second call after
  that one ends the process.
\<close>

theorem singleton_misuse_is_fatal:
  "(g_instance g = None \<longrightarrow>
      getGlobalTreadmillFB303 g = Inl (Abort [Str ''No global Treadmill FB303 instance set''])) \<and>
   getGlobalTreadmillFB303 g \<noteq> Inr None \<and>
   (g_instance g \<noteq> None \<longrightarrow>
      make_fb303 now p sch g =
        Inl (Abort [Str ''Global Treadmill FB303 instance was already set''])) \<and>
   (g_instance g = None \<longrightarrow>
      (\<exists>t g'. make_fb303 now p sch g = Inr (t, g') \<and>
         g_instance g' = Some (TreadmillFB303 now sch))) \<and>
   (make_fb303 now p sch g = Inr (t, g') \<longrightarrow>
      make_fb303 now' p' sch' g' =
        Inl (Abort [Str ''Global Treadmill FB303 instance was already set'']))"
  by (auto simp add: getGlobalTreadmillFB303_def make_fb303_def Let_def split: if_splits)

theorem singleton_misuse_is_fatal_witness:
  "g_instance (process_start :: unit process) = None \<and>
   getGlobalTreadmillFB303 (process_start :: unit process) =
     Inl (Abort [Str ''No global Treadmill FB303 instance set'']) \<and>
   (\<exists>t g'. make_fb303 0 8080 () process_start = Inr (t, g') \<and> g_instance g' \<noteq> None \<and>
      make_fb303 1 8081 () g' =
        Inl (Abort [Str ''Global Treadmill FB303 instance was already set'']))"
proof -
  have start: "g_instance (process_start :: unit process) = None"
    by (simp add: process_start_def)
  from start singleton_misuse_is_fatal [of "process_start :: unit process" 0 8080 "()"]
  obtain t g' where first: "make_fb303 0 8080 () process_start = Inr (t, g')"
    and inst: "g_instance g' = Some (TreadmillFB303 0 ())"
    by blast
  from first singleton_misuse_is_fatal
    [of "process_start :: unit process" 0 8080 "()" t g' 1 8081 "()"]
  have second: "make_fb303 1 8081 () g' =
      Inl (Abort [Str ''Global Treadmill FB303 instance was already set''])"
    by blast
  from start singleton_misuse_is_fatal [of "process_start :: unit process" 0 8080 "()"]
  have "getGlobalTreadmillFB303 (process_start :: unit process) =
      Inl (Abort [Str ''No global Treadmill FB303 instance set''])"
    by blast
  with start first inst second show ?thesis by simp
qed

text \<open>
  C5. A handler that has just been constructed reports STARTING. After \<open>setStatus st\<close>
  the status read is \<open>st\<close>, right away and after any sequence of calls that contains no
  \<open>setStatus\<close>.
\<close>

theorem status_starting_then_last_set:
  "getStatus (TreadmillFB303 now sch) = STARTING \<and>
   getStatus (setStatus st h) = st \<and>
   ((\<forall>c \<in> set cs. \<not> is_setStatus c) \<longrightarrow>
      getStatus (run tryTo S cs (setStatus st h)) = st)"
  by (simp add: getStatus_def run_status) (simp add: TreadmillFB303_def setStatus_def)

theorem status_starting_then_last_set_witness:
  "list_all (\<lambda>c. \<not> is_setStatus c)
     [Op_pause, Op_setConfiguration ''a'' ''b'', Op_resume2 None, Op_getStatus] \<and>
   getStatus (run decimal_uint32 example_scheduler
      [Op_pause, Op_setConfiguration ''a'' ''b'', Op_resume2 None, Op_getStatus]
      (setStatus ALIVE (TreadmillFB303 0 (False, [])))) = ALIVE"
proof -
  have calls:
    "\<forall>c \<in> set [Op_pause, Op_setConfiguration ''a'' ''b'', Op_resume2 None, Op_getStatus].
       \<not> is_setStatus c"
    by simp
  from calls status_starting_then_last_set
    [where cs = "[Op_pause, Op_setConfiguration ''a'' ''b'', Op_resume2 None, Op_getStatus]"
       and st = ALIVE and h = "TreadmillFB303 0 (False, [])" and tryTo = decimal_uint32
       and S = example_scheduler and now = 0 and sch = "()"]
  show ?thesis by (simp add: list_all_iff)
qed

text \<open>
  C6. On a handler that was constructed and then received any sequence of calls, none of
  them a \<open>setConfiguration\<close> of the key \<open>k\<close>, \<open>getConfiguration k\<close> returns the empty
  string, and it returns it as a value (\<open>Inr\<close>), not as an error.
\<close>

theorem getConfiguration_never_set:
  "\<forall>c \<in> set cs. \<not> sets_key k c \<Longrightarrow>
   fst (future_getConfiguration k (run tryTo S cs (TreadmillFB303 now sch))) = Inr []"
proof -
  assume "\<forall>c \<in> set cs. \<not> sets_key k c"
  moreover have "m_configuration (TreadmillFB303 now sch) k = None"
    by (simp add: TreadmillFB303_def)
  ultimately have "m_configuration (run tryTo S cs (TreadmillFB303 now sch)) k = None"
    by (rule run_absent)
  then show ?thesis by (rule get_absent)
qed

theorem getConfiguration_never_set_witness:
  "list_all (\<lambda>c. \<not> sets_key ''b'' c)
     [Op_setConfiguration ''a'' ''1'', Op_resume, Op_getConfiguration ''b''] \<and>
   fst (future_getConfiguration ''b'' (run decimal_uint32 example_scheduler
      [Op_setConfiguration ''a'' ''1'', Op_resume, Op_getConfiguration ''b'']
      (TreadmillFB303 0 (False, [])))) = Inr []"
proof -
  have h: "\<forall>c \<in> set [Op_setConfiguration ''a'' ''1'', Op_resume, Op_getConfiguration ''b''].
      \<not> sets_key ''b'' c"
    by simp
  from h getConfiguration_never_set [OF h, of decimal_uint32 example_scheduler 0 "(False, [])"]
  show ?thesis by simp
qed

text \<open>
  C7. A null request gives the same result and the same handler as a request with the
  phase \<open>''UNKNOWN_PHASE''\<close>. In every call the scheduler's \<open>resume\<close> runs on the state
  that \<open>setPhase\<close> left, the calls appear in that order among the effects, and the
  \<open>success\<close> field of the response is the boolean that \<open>resume\<close> returned.
\<close>

theorem resume2_sets_phase_then_resumes:
  "future_resume2 S None h = future_resume2 S (Some \<lparr>phaseName = ''UNKNOWN_PHASE''\<rparr>) h \<and>
   success (fst (future_resume2 S req h)) =
     fst (sched_resume S (sched_setPhase S
       (case req of None \<Rightarrow> ''UNKNOWN_PHASE'' | Some q \<Rightarrow> phaseName q) (m_scheduler h))) \<and>
   m_scheduler (snd (future_resume2 S req h)) =
     snd (sched_resume S (sched_setPhase S
       (case req of None \<Rightarrow> ''UNKNOWN_PHASE'' | Some q \<Rightarrow> phaseName q) (m_scheduler h))) \<and>
   (\<exists>l1 l2. m_trace (snd (future_resume2 S req h)) =
      m_trace h @
        [LOG Info l1,
         Scheduler_setPhase (case req of None \<Rightarrow> ''UNKNOWN_PHASE'' | Some q \<Rightarrow> phaseName q),
         Scheduler_resume,
         LOG Info l2])"
  by (simp add: future_resume2_def emit_def Let_def split: prod.splits option.splits)

theorem resume2_sets_phase_then_resumes_witness:
  "fst (sched_resume example_scheduler (False, [])) = False \<and>
   success (fst (future_resume2 example_scheduler None (TreadmillFB303 0 (False, [])))) = True \<and>
   m_scheduler (snd (future_resume2 example_scheduler None (TreadmillFB303 0 (False, [])))) =
     (True, ''UNKNOWN_PHASE'')"
proof -
  have before: "fst (sched_resume example_scheduler (False, [])) = False"
    by (simp add: example_scheduler_def)
  have after: "sched_resume example_scheduler
      (sched_setPhase example_scheduler ''UNKNOWN_PHASE'' (False, [])) =
      (True, (True, ''UNKNOWN_PHASE''))"
    by (simp add: example_scheduler_def)
  have start: "m_scheduler (TreadmillFB303 0 (False, [])) = (False, [])"
    by (simp add: TreadmillFB303_def)
  from resume2_sets_phase_then_resumes
    [of example_scheduler "TreadmillFB303 0 (False, [])" None, THEN conjunct2]
  show ?thesis
    by (simp add: before after start)
qed

text \<open>
  C8. \<open>aliveSince\<close> on a new handler returns the time given to the constructor; no call
  changes what \<open>aliveSince\<close> returns; so after any sequence of calls on a handler it
  still returns the time of construction.
\<close>

theorem aliveSince_is_construction_time:
  "aliveSince (TreadmillFB303 now sch) = now \<and>
   aliveSince (exec tryTo S c h) = aliveSince h \<and>
   aliveSince (run tryTo S cs (TreadmillFB303 now sch)) = now"
  by (simp add: aliveSince_def exec_aliveSince run_aliveSince) (simp add: TreadmillFB303_def)

theorem aliveSince_is_construction_time_witness:
  "aliveSince (run decimal_uint32 example_scheduler
     [Op_setStatus ALIVE, Op_pause, Op_resume, Op_resume2 None, Op_setRps 5,
      Op_setMaxOutstanding 9, Op_setConfiguration ''a'' ''b'', Op_getConfiguration ''a'']
     (TreadmillFB303 1414141414 (False, []))) = 1414141414"
  using aliveSince_is_construction_time
    [where cs = "[Op_setStatus ALIVE, Op_pause, Op_resume, Op_resume2 None, Op_setRps 5,
        Op_setMaxOutstanding 9, Op_setConfiguration ''a'' ''b'', Op_getConfiguration ''a'']"
      and now = 1414141414 and sch = "(False, [])" and tryTo = decimal_uint32
      and S = example_scheduler]
  by blast

text \<open>
  C9. \<open>pause\<close>, \<open>resume\<close>, \<open>resume2\<close>, \<open>setRps\<close>, \<open>setMaxOutstanding\<close> and
  \<open>setConfiguration\<close> leave the value that \<open>getStatus\<close> returns as it was, and so does
  every call that is not a \<open>setStatus\<close>.
\<close>

theorem control_operations_keep_status:
  "getStatus (snd (pause S h)) = getStatus h \<and>
   getStatus (snd (resume S h)) = getStatus h \<and>
   getStatus (snd (future_resume2 S req h)) = getStatus h \<and>
   getStatus (setRps S r h) = getStatus h \<and>
   getStatus (setMaxOutstanding S n h) = getStatus h \<and>
   getStatus (setConfiguration k v h) = getStatus h \<and>
   (\<not> is_setStatus c \<longrightarrow> getStatus (exec tryTo S c h) = getStatus h)"
  using exec_status [of Op_pause tryTo S h] exec_status [of Op_resume tryTo S h]
    exec_status [of "Op_resume2 req" tryTo S h] exec_status [of "Op_setRps r" tryTo S h]
    exec_status [of "Op_setMaxOutstanding n" tryTo S h]
    exec_status [of "Op_setConfiguration k v" tryTo S h] exec_status [of c tryTo S h]
  by (simp add: getStatus_def)

theorem control_operations_keep_status_witness:
  "\<not> is_setStatus Op_pause \<and>
   getStatus (setStatus ALIVE (TreadmillFB303 0 (True, ''p''))) = ALIVE \<and>
   getStatus (exec decimal_uint32 example_scheduler Op_pause
     (setStatus ALIVE (TreadmillFB303 0 (True, ''p'')))) = ALIVE"
  using control_operations_keep_status
    [where c = Op_pause and tryTo = decimal_uint32 and S = example_scheduler
       and h = "setStatus ALIVE (TreadmillFB303 0 (True, ''p''))"]
  by (simp add: getStatus_def setStatus_def)

text \<open>
  C10. The claim: a read of the configuration store or of the status that overlaps one
  write sees the state before the write or the state after it. It holds for the status,
  which is read and written under the mutex. It fails for the configuration store, which
  is read and written without it: on a handler where \<open>''k''\<close> is set to \<open>''v''\<close>, neither
  \<open>getConfiguration\<close> nor \<open>pause\<close> takes a holder; the read before \<open>pause\<close> returns
  \<open>''v''\<close> and the read after it returns the empty string; the read whose \<open>count\<close>
  runs before \<open>pause\<close> and whose \<open>at\<close> runs after it returns neither, but raises
  \<open>out_of_range\<close>.
\<close>

theorem getConfiguration_torn_by_pause:
  "guard (Op_getConfiguration ''k'') = None \<and>
   guard Op_pause = None \<and>
   fst (future_getConfiguration ''k''
          (setConfiguration ''k'' ''v'' (TreadmillFB303 0 (True, ''p'')))) = Inr ''v'' \<and>
   fst (future_getConfiguration ''k''
          (snd (pause example_scheduler
             (setConfiguration ''k'' ''v'' (TreadmillFB303 0 (True, ''p'')))))) = Inr [] \<and>
   map_option fst
     (getConfiguration_during decimal_uint32 example_scheduler ''k'' Op_pause
        (setConfiguration ''k'' ''v'' (TreadmillFB303 0 (True, ''p'')))) =
     Some (Inl out_of_range)"
proof -
  let ?h = "setConfiguration ''k'' ''v'' (TreadmillFB303 0 (True, ''p''))"
  have set: "m_configuration ?h ''k'' = Some ''v''"
    by (simp add: configuration_setConfiguration emplace_def TreadmillFB303_def)
  have cleared: "m_configuration (snd (pause example_scheduler ?h)) ''k'' = None"
    by (simp add: pause_def emit_def Let_def)
  show ?thesis
    using get_present [OF set] get_absent [OF cleared] getConfiguration_during_pause [OF set]
    by simp
qed

end
